theory Spec2Isabelle
  imports Main "HOL-Library.AList" "HOL-Library.Sublist"
begin

section \<open>Notebooks of build-language-models-on-aws: a shallow embedding\<close>

text \<open>
  The repository is a set of Jupyter notebooks. Most cells build a configuration value and
  hand it to the SageMaker SDK; a few define Python helpers of their own
  (\<open>group_texts\<close>, \<open>template_dataset\<close>, \<open>find_all_linear_names\<close>) or guard a lookup with
  a \<open>raise\<close>. This theory embeds those cells: Python values as a datatype, dictionaries as
  association lists in insertion order, exceptions as the left summand of a sum type.
\<close>

subsection \<open>Python values, exceptions and dictionaries\<close>

text \<open>
  The values that occur in the notebooks' configuration dictionaries. A float is kept as
  the literal the notebook writes (its IEEE value plays no part below). \<open>bool\<close> is a class
  of its own: \<open>type(True)\<close> is \<open>bool\<close>, and the SDK serialises \<open>True\<close> as \<open>true\<close>, not as a
  number.
\<close>

datatype pyval = PInt int | PFloat string | PStr string | PBool bool

text \<open>
  Exceptions. \<open>UnboundLocalError\<close> is Python's subclass of \<open>NameError\<close> for a local
  variable read before assignment. \<open>SDKError\<close> stands for any exception raised inside the
  external SDK or service; every other constructor is raised by the notebook's own
  statements or by the interpreter evaluating them.
\<close>

datatype py_error =
    RuntimeError string
  | ValueError
  | KeyError string
  | IndexError
  | UnboundLocalError string
  | ZeroDivisionError
  | SDKError string

definition raised_by_sdk :: "py_error \<Rightarrow> bool" where
  "raised_by_sdk e = (case e of SDKError _ \<Rightarrow> True | _ \<Rightarrow> False)"

text \<open>
  \<open>d.update(other)\<close>: every item of \<open>other\<close> is assigned into \<open>d\<close> in order; an existing key
  keeps its position, a new key is appended (\<open>AList.update\<close>).
\<close>

definition dict_update :: "('k \<times> 'v) list \<Rightarrow> ('k \<times> 'v) list \<Rightarrow> ('k \<times> 'v) list" where
  "dict_update d other = fold (\<lambda>(k, v). AList.update k v) other d"

subsection \<open>Slices, ranges and string helpers of Python\<close>

text \<open>\<open>t[i:j]\<close> with Python's clamping of both bounds and negative indices from the end.\<close>

definition py_slice :: "'a list \<Rightarrow> int \<Rightarrow> int \<Rightarrow> 'a list" where
  "py_slice t i j =
     (let n = int (length t);
          lo = (if i < 0 then max (i + n) 0 else min i n);
          hi = (if j < 0 then max (j + n) 0 else min j n)
      in take (nat (hi - lo)) (drop (nat lo) t))"

text \<open>
  \<open>range(start, stop, step)\<close> as a list. A zero step raises \<open>ValueError\<close> in Python;
  \<open>group_texts\<close> divides by the step before it builds the range, so the last branch is
  never reached from it.
\<close>

definition py_range :: "int \<Rightarrow> int \<Rightarrow> int \<Rightarrow> int list" where
  "py_range start stop step =
     (if 0 < step then
        map (\<lambda>j. start + int j * step) [0 ..< nat ((stop - start + step - 1) div step)]
      else if step < 0 then
        map (\<lambda>j. start + int j * step) [0 ..< nat ((start - stop - step - 1) div (- step))]
      else [])"

text \<open>\<open>s.split(c)\<close> for a one-character separator: never empty, \<open>''''.split(c) = ['''']\<close>.\<close>

fun py_split :: "char \<Rightarrow> string \<Rightarrow> string list" where
  "py_split c [] = [[]]"
| "py_split c (x # xs) =
     (if x = c then [] # py_split c xs
      else (case py_split c xs of [] \<Rightarrow> [[x]] | l # ls \<Rightarrow> (x # l) # ls))"

text \<open>Decimal digits of a natural number, and the format specification \<open>02d\<close>.\<close>

definition digit_char :: "nat \<Rightarrow> char" where
  "digit_char d = ''0123456789'' ! d"

function decimal :: "nat \<Rightarrow> string" where
  "decimal n = (if n < 10 then [digit_char n] else decimal (n div 10) @ [digit_char (n mod 10)])"
  by pat_completeness auto
termination
  by (relation "measure id") auto

declare decimal.simps [simp del]

definition format_02d_int :: "int \<Rightarrow> string" where
  "format_02d_int n =
     (let sign = (if n < 0 then ''-'' else '''');
          digits = decimal (nat \<bar>n\<bar>)
      in sign @ replicate (2 - length sign - length digits) (CHR ''0'') @ digits)"

text \<open>
  \<open>format(v, '02d')\<close>: integers (and \<open>bool\<close>, a subclass of \<open>int\<close>) are zero-padded to width
  two; a \<open>str\<close> or a \<open>float\<close> has no format code \<open>d\<close> and raises \<open>ValueError\<close>.
\<close>

definition format_02d :: "pyval \<Rightarrow> py_error + string" where
  "format_02d v =
     (case v of
        PInt n \<Rightarrow> Inr (format_02d_int n)
      | PBool b \<Rightarrow> Inr (format_02d_int (if b then 1 else 0))
      | PStr _ \<Rightarrow> Inl ValueError
      | PFloat _ \<Rightarrow> Inl ValueError)"

subsection \<open>smp-train-mixtral-fsdp-ep.ipynb: preprocessing\<close>

text \<open>
  A batch handed to \<open>group_texts\<close> by \<open>datasets.map(batched=True)\<close> is a dictionary from
  column name to a list of rows, each row a list of tokens. \<open>block_size\<close> is a global of
  the notebook and a parameter here.

  The inner comprehension
  \<open>[t[i : i + block_size] for i in range(0, total_length, block_size)]\<close>:
\<close>

definition split_by_chunks :: "int \<Rightarrow> int \<Rightarrow> 'a list \<Rightarrow> 'a list list" where
  "split_by_chunks block_size total_length t =
     map (\<lambda>i. py_slice t i (i + block_size)) (py_range 0 total_length block_size)"

text \<open>
  \<open>group_texts\<close>, statement by statement. \<open>list(examples.keys())[0]\<close> raises \<open>IndexError\<close>
  on an empty dictionary, \<open>//\<close> raises \<open>ZeroDivisionError\<close>, and when the \<open>if\<close> is not
  taken the local \<open>result\<close> is read unassigned. Integer division on \<open>int\<close> rounds towards
  minus infinity in HOL as in Python.
\<close>

definition group_texts ::
  "int \<Rightarrow> (string \<times> 'a list list) list \<Rightarrow> py_error + (string \<times> 'a list list) list" where
  "group_texts block_size examples =
     (let concatenated_examples = map (\<lambda>(k, v). (k, concat v)) examples in
      case concatenated_examples of
        [] \<Rightarrow> Inl IndexError
      | (k0, t0) # _ \<Rightarrow>
          let total_length = int (length t0) in
          if total_length \<ge> block_size then
            if block_size = 0 then Inl ZeroDivisionError
            else
              let total_length' = (total_length div block_size) * block_size;
                  result = map (\<lambda>(k, t). (k, split_by_chunks block_size total_length' t))
                             concatenated_examples
              in (case map_of result ''input_ids'' of
                    None \<Rightarrow> Inl (KeyError ''input_ids'')
                  | Some ids \<Rightarrow> Inr (AList.update ''labels'' ids result))
          else Inl (UnboundLocalError ''result''))"

text \<open>
  What the claims call the total concatenated token length of a batch (the length the code
  measures on the first column), and a batch of tokenized examples: it has columns, one of
  them \<open>input_ids\<close>, and every column holds as many tokens as the first (the tokenizer
  returns \<open>input_ids\<close> and \<open>attention_mask\<close> rows of equal length).
\<close>

definition total_length :: "(string \<times> 'a list list) list \<Rightarrow> int" where
  "total_length examples = int (length (concat (snd (hd examples))))"

definition tokenized_batch :: "(string \<times> 'a list list) list \<Rightarrow> bool" where
  "tokenized_batch examples \<longleftrightarrow>
     examples \<noteq> [] \<and> map_of examples ''input_ids'' \<noteq> None \<and>
     (\<forall>(k, v) \<in> set examples. int (length (concat v)) = total_length examples)"

text \<open>
  The three kinds of operation the specification allows a notebook: building a
  configuration value (the result does not depend on the data passed in), and printing or
  inspecting (the data comes back unchanged); a call into the SDK has no body in the
  notebook at all.
\<close>

definition configuration_or_inspection :: "('a \<Rightarrow> py_error + 'a) \<Rightarrow> bool" where
  "configuration_or_inspection f \<longleftrightarrow> (\<exists>c. \<forall>x. f x = c) \<or> (\<forall>x. f x = Inr x)"

subsection \<open>smp-train-mixtral-fsdp-ep.ipynb: hyperparameters and model configuration\<close>

text \<open>The globals set before the hyperparameter cell.\<close>

definition model_type :: string where
  "model_type = ''mixtral''"

definition expert_parallel_degree :: pyval where
  "expert_parallel_degree = PInt 2"

definition hybrid_shard_degree :: pyval where
  "hybrid_shard_degree = PInt 32"

definition activation_loading_horizon :: pyval where
  "activation_loading_horizon = PInt 2"

definition save_steps :: pyval where
  "save_steps = PInt 10"

definition max_steps :: pyval where
  "max_steps = PInt 15"

definition offload_activations :: pyval where
  "offload_activations = PBool False"

text \<open>The dictionary literal of the cell titled Hyperparameters, for a given \<open>model_type\<close>.\<close>

definition hyperparameters :: "string \<Rightarrow> (string \<times> pyval) list" where
  "hyperparameters mt =
     [(''activation_checkpointing'', PInt 1),
      (''auto_wrap_policy'', PStr ''transformer_auto_wrap_policy''),
      (''backward_fetch_policy'', PStr ''backward_pre''),
      (''beta1'', PFloat ''0.9''),
      (''beta2'', PFloat ''0.95''),
      (''bf16'', PInt 1),
      (''fp8'', PInt 0),
      (''checkpoint_dir'', PStr ''/opt/ml/checkpoints''),
      (''checkpoint_freq'', save_steps),
      (''clean_cache'', PInt 0),
      (''delayed_param'', PInt 1),
      (''enable_memory_profiling'', PInt 0),
      (''epochs'', PInt 100),
      (''fast_validation'', PInt 0),
      (''forward_prefetch'', PInt 1),
      (''limit_all_gathers'', PInt 1),
      (''logging_freq'', PInt 1),
      (''lr'', PFloat ''0.0001''),
      (''lr_decay_iters'', PInt 47683),
      (''lr_decay_style'', PStr ''cosine''),
      (''max_steps'', max_steps),
      (''min_lr'', PFloat ''1e-05''),
      (''model_type'', PStr mt),
      (''num_kept_checkpoints'', PInt 2),
      (''plateau'', PFloat ''0.0''),
      (''seed'', PInt 12345),
      (''sharding_strategy'', PStr ''hybrid_shard''),
      (''train_batch_size'', PInt 2),
      (''use_smp_implementation'', PInt 1),
      (''val_batch_size'', PInt 2),
      (''validation_freq'', save_steps),
      (''vocab_size'', PInt 50257),
      (''warmup'', PFloat ''0.0032''),
      (''weight_decay'', PFloat ''0.2''),
      (''zipped_data'', PInt 0),
      (''moe'', PInt 1),
      (''moe_load_balancing'', PStr ''sinkhorn''),
      (''moe_all_to_all_dispatcher'', PInt 1)]"

text \<open>The cell that picks the model configuration by \<open>(model_type, model_size)\<close>.\<close>

definition model_size :: pyval where
  "model_size = PStr ''small''"

definition model_configs :: "(string \<times> (string \<times> (string \<times> pyval) list) list) list" where
  "model_configs =
     [(''mixtral'',
        [(''small'',
            [(''hidden_width'', PInt 2048),
             (''max_context_width'', PInt 2048),
             (''num_heads'', PInt 16),
             (''num_layers'', PInt 8),
             (''num_local_experts'', PInt 4)]),
         (''large'',
            [(''hidden_width'', PInt 4096),
             (''max_context_width'', PInt 2048),
             (''num_heads'', PInt 32),
             (''num_layers'', PInt 32),
             (''num_local_experts'', PInt 8)])])]"

text \<open>
  \<open>model_configs.get(model_type, {}).get(model_size)\<close>. The keys of the inner dictionary
  are strings, so a size that is not a \<open>str\<close> equals none of them.
\<close>

definition model_params_lookup :: "string \<Rightarrow> pyval \<Rightarrow> (string \<times> pyval) list option" where
  "model_params_lookup mt ms =
     (let by_size = (case map_of model_configs mt of None \<Rightarrow> [] | Some d \<Rightarrow> d)
      in case ms of PStr s \<Rightarrow> map_of by_size s | _ \<Rightarrow> None)"

text \<open>
  The rest of the cell: the guard with its \<open>raise RuntimeError(f"...")\<close>, then
  \<open>hyperparameters.update(model_params)\<close>. The f-string is evaluated before the
  \<open>RuntimeError\<close> is built, so a failing \<open>{model_size:02d}\<close> surfaces instead of it.
\<close>

definition model_config_cell ::
  "string \<Rightarrow> pyval \<Rightarrow> (string \<times> pyval) list \<Rightarrow> py_error + (string \<times> pyval) list" where
  "model_config_cell mt ms hp =
     (case model_params_lookup mt ms of
        None \<Rightarrow>
          (case format_02d ms of
             Inl e \<Rightarrow> Inl e
           | Inr sz \<Rightarrow>
               Inl (RuntimeError
                     (''Unknown model config from (name, size) = ('' @ mt @ '', '' @ sz @ ''B).'')))
      | Some model_params \<Rightarrow> Inr (dict_update hp model_params))"

text \<open>The dictionary the estimator receives as \<open>hyperparameters\<close> when the notebook runs as written.\<close>

definition estimator_hyperparameters :: "py_error + (string \<times> pyval) list" where
  "estimator_hyperparameters = model_config_cell model_type model_size (hyperparameters model_type)"

text \<open>
  The \<open>distribution\<close> argument of the estimator is a nested dictionary; \<open>smp_parameters\<close> is
  its entry \<open>["smdistributed"]["modelparallel"]["parameters"]\<close>.
\<close>

datatype config = Leaf pyval | Dict "(string \<times> config) list"

definition smp_parameters :: "(string \<times> pyval) list" where
  "smp_parameters =
     [(''activation_loading_horizon'', activation_loading_horizon),
      (''hybrid_shard_degree'', hybrid_shard_degree),
      (''sm_activation_offloading'', offload_activations),
      (''expert_parallel_degree'', expert_parallel_degree)]"

definition distribution :: config where
  "distribution =
     Dict [(''torch_distributed'', Dict [(''enabled'', Leaf (PBool True))]),
           (''smdistributed'',
              Dict [(''modelparallel'',
                       Dict [(''enabled'', Leaf (PBool True)),
                             (''parameters'', Dict (map (\<lambda>(k, v). (k, Leaf v)) smp_parameters))])])]"

fun config_path :: "string list \<Rightarrow> config \<Rightarrow> config option" where
  "config_path [] c = Some c"
| "config_path (k # ks) (Dict d) = (case map_of d k of None \<Rightarrow> None | Some c \<Rightarrow> config_path ks c)"
| "config_path (k # ks) (Leaf v) = None"

text \<open>The two readings of a value's type that the claims use.\<close>

definition number_or_string :: "pyval \<Rightarrow> bool" where
  "number_or_string v = (case v of PInt _ \<Rightarrow> True | PFloat _ \<Rightarrow> True | PStr _ \<Rightarrow> True | PBool _ \<Rightarrow> False)"

definition is_integer :: "pyval \<Rightarrow> bool" where
  "is_integer v = (case v of PInt _ \<Rightarrow> True | _ \<Rightarrow> False)"

subsection \<open>The TinyLlama fine-tuning notebook: the estimator's hyperparameters\<close>

text \<open>The dictionary literal passed as \<open>hyperparameters\<close> to the \<open>PyTorch\<close> estimator \<open>pt_estimator\<close>.\<close>

definition pt_estimator_hyperparameters :: "(string \<times> pyval) list" where
  "pt_estimator_hyperparameters =
     [(''model_name_or_path'', PStr ''PY007/TinyLlama-1.1B-intermediate-step-715k-1.5T''),
      (''dataset_name'', PStr ''5cp/imdb_review_prompts''),
      (''per_device_train_batch_size'', PInt 1),
      (''do_train'', PStr ''''),
      (''max_steps'', PInt 100),
      (''block_size'', PInt 150),
      (''tensor_parallel_size'', PInt 2),
      (''output_dir'', PStr ''/opt/ml/model''),
      (''gradient_accumulation_steps'', PInt 8),
      (''logging_steps'', PInt 5),
      (''bf16'', PStr ''''),
      (''disable_tqdm'', PBool True)]"

subsection \<open>The Llama 3 QLoRA notebook: prompt template and LoRA target modules\<close>

definition newline :: char where
  "newline = CHR 0x0A"

text \<open>
  \<open>prompt_template\<close> after the f-string is evaluated: the doubled braces of the source have
  become the replacement fields \<open>{question}\<close> and \<open>{answer}\<close>. The literal starts and ends
  with a line break.
\<close>

definition prompt_template :: string where
  "prompt_template =
     [newline] @ ''<|begin_of_text|><|start_header_id|>user<|end_header_id|>'' @ [newline] @
     ''{question}'' @ [newline] @
     ''<|eot_id|><|start_header_id|>assistant<|end_header_id|>'' @ [newline] @
     ''{answer}'' @ [newline] @
     ''<|eot_id|><|end_of_text|>'' @ [newline]"

text \<open>
  \<open>template.format(**kwargs)\<close> for templates whose replacement fields are plain names: the
  scan copies text, reads a field name between braces and puts the argument in its place
  without scanning it again. \<open>{{\<close> and \<open>}}\<close> are the escapes; a lone closing brace, an
  unclosed field or a brace inside a field is a \<open>ValueError\<close>, a name without argument a
  \<open>KeyError\<close>, an empty or numeric field (a positional argument, of which there are none) an
  \<open>IndexError\<close>. The second argument is the field name read so far, \<open>None\<close> outside a field.
\<close>

fun format_scan :: "(string \<rightharpoonup> string) \<Rightarrow> string option \<Rightarrow> string \<Rightarrow> py_error + string" where
  "format_scan kw None [] = Inr []"
| "format_scan kw (Some name) [] = Inl ValueError"
| "format_scan kw None [c] =
     (if c = CHR ''{'' \<or> c = CHR ''}'' then Inl ValueError else Inr [c])"
| "format_scan kw None (c # d # cs) =
     (if c = CHR ''{'' then
        (if d = CHR ''{'' then map_sum id ((#) c) (format_scan kw None cs)
         else format_scan kw (Some []) (d # cs))
      else if c = CHR ''}'' then
        (if d = CHR ''}'' then map_sum id ((#) c) (format_scan kw None cs)
         else Inl ValueError)
      else map_sum id ((#) c) (format_scan kw None (d # cs)))"
| "format_scan kw (Some name) (c # cs) =
     (if c = CHR ''}'' then
        (if list_all (\<lambda>x. x \<in> set ''0123456789'') name then Inl IndexError
         else case kw name of
           None \<Rightarrow> Inl (KeyError name)
         | Some arg \<Rightarrow> map_sum id ((@) arg) (format_scan kw None cs))
      else if c = CHR ''{'' then Inl ValueError
      else format_scan kw (Some (name @ [c])) cs)"

definition py_format :: "string \<Rightarrow> (string \<rightharpoonup> string) \<Rightarrow> py_error + string" where
  "py_format template kw = format_scan kw None template"

text \<open>
  \<open>template_dataset\<close>: a sample is a dictionary from column name to text. Reading a
  missing column raises \<open>KeyError\<close>; the arguments are evaluated in the order written.
\<close>

definition template_dataset :: "(string \<rightharpoonup> string) \<Rightarrow> py_error + (string \<rightharpoonup> string)" where
  "template_dataset sample =
     (case sample ''question'' of
        None \<Rightarrow> Inl (KeyError ''question'')
      | Some q \<Rightarrow>
          (case sample ''answer'' of
             None \<Rightarrow> Inl (KeyError ''answer'')
           | Some a \<Rightarrow>
               (case py_format prompt_template [''question'' \<mapsto> q, ''answer'' \<mapsto> a] of
                  Inl e \<Rightarrow> Inl e
                | Inr filled \<Rightarrow> Inr (sample(''text'' \<mapsto> filled)))))"

text \<open>The prompt the specification describes: the fixed text with question and answer in place.\<close>

definition prompt_text :: "string \<Rightarrow> string \<Rightarrow> string" where
  "prompt_text q a =
     [newline] @ ''<|begin_of_text|><|start_header_id|>user<|end_header_id|>'' @ [newline] @
     q @ [newline] @
     ''<|eot_id|><|start_header_id|>assistant<|end_header_id|>'' @ [newline] @
     a @ [newline] @
     ''<|eot_id|><|end_of_text|>'' @ [newline]"

text \<open>
  \<open>find_all_linear_names\<close>. \<open>named_modules()\<close> yields (name, module) pairs; of a module only
  the outcome of \<open>isinstance(module, bnb.nn.Linear4bit)\<close> matters, which \<open>Linear4bit\<close>
  records (instances of subclasses included). The Python set is a duplicate-free list;
  \<open>list(set)\<close> returns its elements in an order Python does not fix, here the order of
  insertion, and the theorems below do not depend on it.
\<close>

datatype module_kind = Linear4bit | Other_module

definition set_add :: "'a \<Rightarrow> 'a list \<Rightarrow> 'a list" where
  "set_add x s = (if x \<in> set s then s else s @ [x])"

definition set_remove :: "'a \<Rightarrow> 'a list \<Rightarrow> 'a list" where
  "set_remove x s = removeAll x s"

definition find_all_linear_names :: "(string \<times> module_kind) list \<Rightarrow> string list" where
  "find_all_linear_names named_modules =
     (let lora_module_names =
            fold (\<lambda>(name, module) acc.
                    if module = Linear4bit then
                      (let names = py_split (CHR ''.'') name
                       in set_add (if length names = 1 then names ! 0 else last names) acc)
                    else acc)
                 named_modules []
      in if ''lm_head'' \<in> set lora_module_names
         then set_remove ''lm_head'' lora_module_names
         else lora_module_names)"

text \<open>The final dot-separated component of a module name, the whole name when it has no dot.\<close>

definition final_component :: "string \<Rightarrow> string" where
  "final_component name = rev (takeWhile (\<lambda>c. c \<noteq> CHR ''.'') (rev name))"

subsection \<open>The deployment notebooks: serving.properties and its archive\<close>

text \<open>A multi-line string literal, written as its lines joined by line breaks.\<close>

fun join_lines :: "string list \<Rightarrow> string" where
  "join_lines [] = []"
| "join_lines [l] = l"
| "join_lines (l # m # ls) = l @ newline # join_lines (m # ls)"

text \<open>
  The \<open>%%writefile\<close> magic writes the cell body, which IPython ends with a line break.
\<close>

definition writefile_magic :: "string \<Rightarrow> string" where
  "writefile_magic body = body @ [newline]"

text \<open>mixtral-8x7b-lmidist-deploy.ipynb, the cell \<open>%%writefile serving.properties\<close>.\<close>

definition mixtral_serving_properties :: string where
  "mixtral_serving_properties =
     writefile_magic (join_lines
       [''engine=MPI'',
        ''option.model_id=mistralai/Mixtral-8x7B-v0.1'',
        ''option.tensor_parallel_degree=8'',
        ''option.max_rolling_batch_size=32'',
        ''option.rolling_batch=lmi-dist''])"

text \<open>
  Inference-TinyLlama-1.1B.ipynb: \<open>s3_new_model_path\<close> is an f-string over the session's
  default bucket, and \<open>file_content\<close> an f-string over that path, written with
  \<open>f.write(file_content)\<close>.
\<close>

definition s3_new_model_path :: "string \<Rightarrow> string" where
  "s3_new_model_path default_bucket = ''s3://'' @ default_bucket @ ''/neuron_events2024/trained_model''"

definition file_content :: "string \<Rightarrow> string" where
  "file_content model_path =
     join_lines
       [''engine=Python'',
        ''option.entryPoint=djl_python.transformers_neuronx'',
        ''option.model_id='' @ model_path,
        ''option.batch_size=1'',
        ''option.neuron_optimize_level=1'',
        ''option.tensor_parallel_degree=2'',
        ''option.load_in_8bit=false'',
        ''option.n_positions=512'',
        ''option.rolling_batch=auto'',
        ''option.dtype=fp16'']"

text \<open>The same notebook, the later cell \<open>%%writefile serving.properties\<close> for the original model.\<close>

definition tinyllama_serving_properties :: string where
  "tinyllama_serving_properties =
     writefile_magic (join_lines
       [''engine=Python'',
        ''option.entryPoint=djl_python.transformers_neuronx'',
        ''option.model_id=TinyLlama/TinyLlama-1.1B-Chat-v0.4'',
        ''option.batch_size=1'',
        ''option.neuron_optimize_level=1'',
        ''option.tensor_parallel_degree=2'',
        ''option.load_in_8bit=false'',
        ''option.n_positions=512'',
        ''option.rolling_batch=auto'',
        ''option.dtype=fp16''])"

definition serving_files :: "string \<Rightarrow> string list" where
  "serving_files default_bucket =
     [mixtral_serving_properties,
      file_content (s3_new_model_path default_bucket),
      tinyllama_serving_properties]"

text \<open>
  Reading a flat key-value file: the text is cut into lines (a final line break ends the
  last line and starts no new one), and every line must be \<open>key=value\<close> with a non-empty
  key that holds no blank; the key ends at the first equals sign.
\<close>

fun file_lines :: "string \<Rightarrow> string list" where
  "file_lines [] = []"
| "file_lines (c # cs) =
     (if c = newline then [] # file_lines cs
      else (case file_lines cs of [] \<Rightarrow> [[c]] | l # ls \<Rightarrow> (c # l) # ls))"

definition split_key_value :: "string \<Rightarrow> (string \<times> string) option" where
  "split_key_value l =
     (let k = takeWhile (\<lambda>c. c \<noteq> CHR ''='') l;
          r = dropWhile (\<lambda>c. c \<noteq> CHR ''='') l
      in if k = [] \<or> r = [] \<or> CHR '' '' \<in> set k then None else Some (k, tl r))"

fun parse_lines :: "string list \<Rightarrow> (string \<times> string) list option" where
  "parse_lines [] = Some []"
| "parse_lines (l # ls) =
     (case split_key_value l of
        None \<Rightarrow> None
      | Some kv \<Rightarrow> (case parse_lines ls of None \<Rightarrow> None | Some kvs \<Rightarrow> Some (kv # kvs)))"

definition parse_properties :: "string \<Rightarrow> (string \<times> string) list option" where
  "parse_properties content = parse_lines (file_lines content)"

text \<open>
  The cells between writing the file and uploading the archive are shell commands. Their
  effect on the working directory: a file is a text or a gzipped tar archive (member path
  and content of each regular file in it); directories are the prefixes of the paths.
  A command that fails (\<open>mv\<close> of a missing file) changes nothing and the shell cell goes on;
  \<open>upload_data\<close> of a missing file raises inside the SDK and uploads nothing.
\<close>

datatype file_node = Text_file string | Tar_gz "(string \<times> string) list"

record notebook_state =
  files :: "(string \<times> file_node) list"
  uploads :: "(string \<times> file_node) list"

datatype command =
    Write_file string string
  | Mkdir string
  | Mv string string
  | Tar_czf string string
  | Rm_rf string
  | Upload_data string string

definition members :: "string \<Rightarrow> (string \<times> file_node) list \<Rightarrow> (string \<times> string) list" where
  "members dir fs =
     concat (map (\<lambda>(p, n). case n of Text_file c \<Rightarrow> if prefix (dir @ ''/'') p then [(p, c)] else []
                                      | Tar_gz _ \<Rightarrow> []) fs)"

fun exec :: "command \<Rightarrow> notebook_state \<Rightarrow> notebook_state" where
  "exec (Write_file p c) s = s\<lparr>files := AList.update p (Text_file c) (files s)\<rparr>"
| "exec (Mkdir d) s = s"
| "exec (Mv p d) s =
     (case map_of (files s) p of
        None \<Rightarrow> s
      | Some n \<Rightarrow> s\<lparr>files := AList.update (d @ ''/'' @ p) n (AList.delete p (files s))\<rparr>)"
| "exec (Tar_czf a d) s = s\<lparr>files := AList.update a (Tar_gz (members d (files s))) (files s)\<rparr>"
| "exec (Rm_rf d) s = s\<lparr>files := filter (\<lambda>(p, n). \<not> prefix (d @ ''/'') p) (files s)\<rparr>"
| "exec (Upload_data p key_prefix) s =
     (case map_of (files s) p of
        None \<Rightarrow> s
      | Some n \<Rightarrow> s\<lparr>uploads := uploads s @ [(key_prefix @ ''/'' @ p, n)]\<rparr>)"

definition run :: "command list \<Rightarrow> notebook_state \<Rightarrow> notebook_state" where
  "run cs s = fold exec cs s"

definition empty_directory :: notebook_state where
  "empty_directory = \<lparr>files = [], uploads = []\<rparr>"

text \<open>The artifact cells of the two deployment notebooks, in the order the notebooks run them.\<close>

definition mixtral_deploy_cells :: "command list" where
  "mixtral_deploy_cells =
     [Write_file ''serving.properties'' mixtral_serving_properties,
      Mkdir ''mymodel'',
      Mv ''serving.properties'' ''mymodel'',
      Tar_czf ''mymodel.tar.gz'' ''mymodel'',
      Rm_rf ''mymodel'',
      Upload_data ''mymodel.tar.gz'' ''large-model-lmi-dist/code'']"

definition tinyllama_deploy_cells :: "string \<Rightarrow> command list" where
  "tinyllama_deploy_cells default_bucket =
     [Write_file ''serving.properties'' (file_content (s3_new_model_path default_bucket)),
      Mkdir ''mycode'',
      Mv ''serving.properties'' ''mycode'',
      Tar_czf ''mycode.tar.gz'' ''mycode'',
      Rm_rf ''mycode'',
      Upload_data ''mycode.tar.gz'' ''large-model-lmi/code'',
      Write_file ''serving.properties'' tinyllama_serving_properties,
      Mkdir ''mycode'',
      Mv ''serving.properties'' ''mycode'',
      Tar_czf ''mycode.tar.gz'' ''mycode'',
      Rm_rf ''mycode'',
      Upload_data ''mycode.tar.gz'' ''tiny_llama/large-model-lmi/code'']"

section \<open>Properties\<close>

subsection \<open>Slices and ranges\<close>

lemma py_slice_chunk:
  assumes "0 \<le> i" "0 \<le> b"
  shows "py_slice t i (i + b) = take (nat b) (drop (nat i) t)"
proof -
  let ?n = "int (length t)"
  consider (inside) "i + b \<le> ?n" | (over) "i \<le> ?n" "?n < i + b" | (beyond) "?n < i"
    by linarith
  then show ?thesis
  proof cases
    case inside
    then have "nat (i + b - i) = nat b" by simp
    with inside assms show ?thesis
      by (simp add: py_slice_def Let_def min_def)
  next
    case over
    then have "length (drop (nat i) t) \<le> nat b" using assms by simp
    moreover have "length (drop (nat i) t) \<le> nat (?n - i)" using assms by simp
    ultimately show ?thesis using over assms
      by (simp add: py_slice_def Let_def min_def)
  next
    case beyond
    then have "drop (nat i) t = []" using assms by simp
    with beyond assms show ?thesis
      by (simp add: py_slice_def Let_def min_def)
  qed
qed

lemma py_range_multiple:
  assumes "0 < b" "0 \<le> q"
  shows "py_range 0 (q * b) b = map (\<lambda>j. int j * b) [0 ..< nat q]"
proof -
  have e: "q * b + b - 1 = q * b + (b - 1)" by simp
  have "(q * b + (b - 1)) div b = q + (b - 1) div b"
    using assms(1) by (simp only: div_mult_self3)
  moreover have "(b - 1) div b = 0" using assms(1) by simp
  ultimately have "(q * b + b - 1) div b = q" unfolding e by linarith
  then show ?thesis using assms by (simp add: py_range_def)
qed

lemma py_range_negative_step:
  assumes "b < 0" "0 \<le> n"
  shows "py_range 0 ((n div b) * b) b = []"
proof -
  define s where "s = (n div b) * b"
  have "(- s - b - 1) div (- b) \<le> 0"
  proof (cases "n div b = 0")
    case True
    then have "s = 0" by (simp add: s_def)
    moreover have "(- b - 1) div (- b) = 0" using assms(1) by simp
    ultimately show ?thesis by simp
  next
    case False
    have "n div b \<le> 0" using assms by (simp add: div_nonneg_neg_le0)
    with False have "n div b \<le> - 1" by simp
    then have "(n div b) * b \<ge> (- 1) * b" using assms(1)
      by (intro mult_right_mono_neg) auto
    then have "- s - b - 1 < 0" by (simp add: s_def)
    then show ?thesis using assms(1)
      by (simp add: div_neg_pos_less0 less_imp_le)
  qed
  then show ?thesis using assms(1) by (simp add: py_range_def s_def)
qed

lemma concat_chunks:
  "concat (map (\<lambda>j. take m (drop (j * m) t)) [0 ..< q]) = take (q * m) t"
proof (induction q)
  case 0
  show ?case by simp
next
  case (Suc q)
  have "Suc q * m = q * m + m" by simp
  then have "take (Suc q * m) t = take (q * m) t @ take m (drop (q * m) t)"
    by (simp only: take_add)
  with Suc show ?case by simp
qed


lemma split_by_chunks_pos:
  assumes "0 < b" "0 \<le> n"
  shows "split_by_chunks b ((n div b) * b) t =
           map (\<lambda>j. take (nat b) (drop (j * nat b) t)) [0 ..< nat (n div b)]"
proof -
  have q: "0 \<le> n div b" using assms by (simp add: pos_imp_zdiv_nonneg_iff)
  have "py_slice t (int j * b) (int j * b + b) = take (nat b) (drop (j * nat b) t)" for j
  proof -
    have "0 \<le> int j * b" using assms(1) by simp
    moreover have "nat (int j * b) = j * nat b" using assms(1) by (simp add: nat_mult_distrib)
    ultimately show ?thesis using assms(1) py_slice_chunk [of "int j * b" b t] by simp
  qed
  then show ?thesis
    using py_range_multiple [OF assms(1) q] by (simp add: split_by_chunks_def comp_def)
qed

lemma split_by_chunks_neg:
  assumes "b < 0" "0 \<le> n"
  shows "split_by_chunks b ((n div b) * b) t = []"
  using py_range_negative_step [OF assms] by (simp add: split_by_chunks_def)

lemma split_by_chunks_length:
  assumes "0 < b" "int (length t) = n" "c \<in> set (split_by_chunks b ((n div b) * b) t)"
  shows "int (length c) = b"
proof -
  have n: "0 \<le> n" using assms(2) by auto
  from assms(3) obtain j where j: "j < nat (n div b)" and c: "c = take (nat b) (drop (j * nat b) t)"
    unfolding split_by_chunks_pos [OF assms(1) n] by auto
  have "int (Suc j) \<le> n div b" using j by linarith
  then have "int (Suc j) * b \<le> (n div b) * b" using assms(1) by (simp add: mult_right_mono)
  also have "\<dots> \<le> n"
    using assms(1) pos_mod_sign [of b n] div_mult_mod_eq [of n b] by linarith
  finally have "int (Suc j) * b \<le> int (length t)" using assms(2) by simp
  then have "int (j * nat b + nat b) \<le> int (length t)" using assms(1) by (simp add: algebra_simps)
  then have "j * nat b + nat b \<le> length t" by linarith
  then show ?thesis using c assms(1) by simp
qed

lemma split_by_chunks_concat:
  assumes "0 < b" "0 \<le> n"
  shows "concat (split_by_chunks b ((n div b) * b) t) = take (nat ((n div b) * b)) t"
proof -
  have "0 \<le> n div b" using assms by (simp add: pos_imp_zdiv_nonneg_iff)
  then have "nat ((n div b) * b) = nat (n div b) * nat b"
    by (simp add: nat_mult_distrib)
  then show ?thesis
    unfolding split_by_chunks_pos [OF assms] by (simp add: concat_chunks)
qed


subsection \<open>\<open>group_texts\<close>\<close>

lemma in_set_update:
  "p \<in> set (AList.update k v al) \<Longrightarrow> p = (k, v) \<or> p \<in> set al"
  by (induction al) (auto split: if_splits)

lemma group_texts_unfold:
  assumes "examples \<noteq> []" "block_size \<noteq> 0" "block_size \<le> total_length examples"
  shows "group_texts block_size examples =
           (let result = map (\<lambda>(k, v). (k, split_by_chunks block_size
                               ((total_length examples div block_size) * block_size) (concat v)))
                             examples
            in case map_of result ''input_ids'' of
                 None \<Rightarrow> Inl (KeyError ''input_ids'')
               | Some ids \<Rightarrow> Inr (AList.update ''labels'' ids result))"
proof (cases examples)
  case Nil
  with assms(1) show ?thesis by simp
next
  case (Cons p ps)
  obtain k0 v0 where p: "p = (k0, v0)" by (cases p)
  have m: "map (\<lambda>(k, t). (k, f t)) (map (\<lambda>(k, v). (k, concat v)) xs) =
           map (\<lambda>(k, v). (k, f (concat v))) xs" for f :: "'a list \<Rightarrow> 'a list list" and xs :: "(string \<times> 'a list list) list"
    by (induction xs) auto
  show ?thesis
    using assms(2,3) unfolding Cons p
    by (simp add: group_texts_def total_length_def Let_def m del: map_map)
qed

lemma group_texts_unbound:
  assumes "examples \<noteq> []" "total_length examples < block_size"
  shows "group_texts block_size examples = Inl (UnboundLocalError ''result'')"
proof (cases examples)
  case Nil
  with assms(1) show ?thesis by simp
next
  case (Cons p ps)
  with assms(2) show ?thesis
    by (cases p) (simp add: group_texts_def total_length_def Let_def)
qed

text \<open>
  Claim C2. \<open>group_texts\<close> is partial. On a batch of tokenized examples whose total
  concatenated token length is at least \<open>block_size\<close> it returns a dictionary in which every
  chunk of every column has exactly \<open>block_size\<close> tokens and \<open>labels\<close> holds what
  \<open>input_ids\<close> holds; on a batch whose total length is below \<open>block_size\<close> it reads the
  local \<open>result\<close> before any assignment and fails with \<open>UnboundLocalError\<close>, the
  \<open>NameError\<close> of an unassigned local. (\<open>block_size\<close> is not zero: the notebook sets it
  to the tokenizer's maximum length, capped at 2048.)
\<close>

theorem group_texts_partial:
  assumes "tokenized_batch examples" and "block_size \<noteq> 0"
  shows "(block_size \<le> total_length examples \<longrightarrow>
            (\<exists>result ids. group_texts block_size examples = Inr result \<and>
               (\<forall>(k, chunks) \<in> set result. \<forall>c \<in> set chunks. int (length c) = block_size) \<and>
               map_of result ''input_ids'' = Some ids \<and>
               map_of result ''labels'' = Some ids)) \<and>
         (total_length examples < block_size \<longrightarrow>
            group_texts block_size examples = Inl (UnboundLocalError ''result''))"
proof (intro conjI impI)
  assume "total_length examples < block_size"
  with assms(1) show "group_texts block_size examples = Inl (UnboundLocalError ''result'')"
    by (simp add: tokenized_batch_def group_texts_unbound)
next
  assume ge: "block_size \<le> total_length examples"
  let ?n = "total_length examples"
  let ?f = "\<lambda>v. split_by_chunks block_size ((?n div block_size) * block_size) (concat v)"
  let ?result = "map (\<lambda>(k, v). (k, ?f v)) examples"
  from assms(1) have ne: "examples \<noteq> []"
    and ids: "map_of examples ''input_ids'' \<noteq> None"
    and al: "\<And>k v. (k, v) \<in> set examples \<Longrightarrow> int (length (concat v)) = ?n"
    by (auto simp: tokenized_batch_def)
  from ids obtain v where v: "map_of examples ''input_ids'' = Some v" by auto
  then have r: "map_of ?result ''input_ids'' = Some (?f v)"
    by (simp add: map_of_map)
  have g: "group_texts block_size examples = Inr (AList.update ''labels'' (?f v) ?result)"
    using group_texts_unfold [OF ne assms(2) ge] r by (simp add: Let_def)
  have n0: "0 \<le> ?n" by (simp add: total_length_def)
  have len: "int (length c) = block_size" if "(k, w) \<in> set examples" "c \<in> set (?f w)" for k w c
  proof (cases "0 < block_size")
    case True
    from split_by_chunks_length [OF True al [OF that(1)] that(2)] show ?thesis .
  next
    case False
    with assms(2) have "block_size < 0" by simp
    from split_by_chunks_neg [OF this n0, of "concat w"] that(2) show ?thesis by simp
  qed
  have chunks: "\<forall>(k, chunks) \<in> set (AList.update ''labels'' (?f v) ?result).
                  \<forall>c \<in> set chunks. int (length c) = block_size"
  proof (clarify)
    fix k chunks c
    assume "(k, chunks) \<in> set (AList.update ''labels'' (?f v) ?result)"
      and c: "c \<in> set chunks"
    from in_set_update [OF this(1)] show "int (length c) = block_size"
    proof
      assume "(k, chunks) = (''labels'', ?f v)"
      moreover from v have "(''input_ids'', v) \<in> set examples" by (rule map_of_SomeD)
      ultimately show ?thesis using len c by blast
    next
      assume "(k, chunks) \<in> set ?result"
      then obtain w where "(k, w) \<in> set examples" "chunks = ?f w" by auto
      then show ?thesis using len c by blast
    qed
  qed
  have "map_of (AList.update ''labels'' (?f v) ?result) ''input_ids'' = Some (?f v)"
    using r by (simp add: update_conv')
  moreover have "map_of (AList.update ''labels'' (?f v) ?result) ''labels'' = Some (?f v)"
    by (simp add: update_conv')
  ultimately show "\<exists>result ids. group_texts block_size examples = Inr result \<and>
               (\<forall>(k, chunks) \<in> set result. \<forall>c \<in> set chunks. int (length c) = block_size) \<and>
               map_of result ''input_ids'' = Some ids \<and>
               map_of result ''labels'' = Some ids"
    using g chunks by blast
qed

theorem group_texts_partial_witness:
  "tokenized_batch [(''input_ids'', [[1, 2, 3], [4, 5 :: int]]),
                    (''attention_mask'', [[1, 1, 1], [1, 1]])] \<and>
   group_texts 2 [(''input_ids'', [[1, 2, 3], [4, 5 :: int]]),
                  (''attention_mask'', [[1, 1, 1], [1, 1]])] =
     Inr [(''input_ids'', [[1, 2], [3, 4]]),
          (''attention_mask'', [[1, 1], [1, 1]]),
          (''labels'', [[1, 2], [3, 4]])] \<and>
   group_texts 6 [(''input_ids'', [[1, 2, 3], [4, 5 :: int]]),
                  (''attention_mask'', [[1, 1, 1], [1, 1]])] =
     Inl (UnboundLocalError ''result'')"
proof -
  let ?ex = "[(''input_ids'', [[1, 2, 3], [4, 5 :: int]]),
              (''attention_mask'', [[1, 1, 1], [1, 1]])]"
  have tb: "tokenized_batch ?ex"
    by (simp add: tokenized_batch_def total_length_def)
  have n: "total_length ?ex = 5"
    by (simp add: total_length_def)
  have two: "group_texts 2 ?ex =
     Inr [(''input_ids'', [[1, 2], [3, 4]]),
          (''attention_mask'', [[1, 1], [1, 1]]),
          (''labels'', [[1, 2], [3, 4]])]"
    by code_simp
  have six: "group_texts 6 ?ex = Inl (UnboundLocalError ''result'')"
    using group_texts_partial [OF tb, of 6] n by simp
  from group_texts_partial [OF tb, of 2] tb two six show ?thesis by simp
qed

lemma group_texts_two_rows:
  "group_texts 2 [(''input_ids'', [[1, 2, 3], [4, 5 :: int]])] =
     Inr [(''input_ids'', [[1, 2], [3, 4]]), (''labels'', [[1, 2], [3, 4]])]"
  by code_simp

lemma group_texts_short_row:
  "group_texts 2 [(''input_ids'', [[1 :: int]])] = Inl (UnboundLocalError ''result'')"
  by code_simp

text \<open>
  Claim C5, as stated: every operation of the notebooks builds a configuration value, calls
  the SDK or prints and inspects, and none transforms data by an algorithm and control flow
  of its own. \<open>group_texts\<close> refutes it: it is neither a constant (its result depends on the
  tokens it is given) nor an inspection (the rows come back cut anew), and which branch it
  takes depends on the data.
\<close>

theorem group_texts_transforms_data:
  "\<not> configuration_or_inspection
       (group_texts 2 :: (string \<times> int list list) list \<Rightarrow> py_error + (string \<times> int list list) list)"
proof
  assume "configuration_or_inspection
       (group_texts 2 :: (string \<times> int list list) list \<Rightarrow> py_error + (string \<times> int list list) list)"
  then consider (const) c where "\<forall>x :: (string \<times> int list list) list. group_texts 2 x = c"
    | (ident) "\<forall>x :: (string \<times> int list list) list. group_texts 2 x = Inr x"
    unfolding configuration_or_inspection_def by blast
  then show False
  proof cases
    case const
    then have "group_texts 2 [(''input_ids'', [[1, 2, 3], [4, 5 :: int]])] =
               group_texts 2 [(''input_ids'', [[1 :: int]])]"
      by simp
    then show False
      unfolding group_texts_two_rows group_texts_short_row by simp
  next
    case ident
    then have "group_texts 2 [(''input_ids'', [[1 :: int]])] = Inr [(''input_ids'', [[1 :: int]])]"
      by blast
    then show False
      unfolding group_texts_short_row by simp
  qed
qed

text \<open>
  Claim C5, amended: \<open>group_texts\<close> is a data transformation of the notebook's own. On a
  batch with an \<open>input_ids\<close> column whose first column holds at least \<open>block_size\<close> tokens
  (\<open>block_size\<close> positive) it returns, and for every column but \<open>labels\<close> the chunks it
  returns, put end to end, are the first \<open>(total_length // block_size) * block_size\<close>
  tokens of that column's rows put end to end: the rows are concatenated, cut anew into
  blocks, and the remainder is dropped; \<open>labels\<close> repeats \<open>input_ids\<close>.
\<close>

theorem group_texts_rechunks:
  assumes "examples \<noteq> []" and "map_of examples ''input_ids'' \<noteq> None"
    and "0 < block_size" and "block_size \<le> total_length examples"
    and "map_of examples k = Some v" and "k \<noteq> ''labels''"
  shows "\<exists>result chunks.
           group_texts block_size examples = Inr result \<and>
           map_of result k = Some chunks \<and>
           concat chunks =
             take (nat ((total_length examples div block_size) * block_size)) (concat v) \<and>
           map_of result ''labels'' = map_of result ''input_ids''"
proof -
  let ?n = "total_length examples"
  let ?f = "\<lambda>v. split_by_chunks block_size ((?n div block_size) * block_size) (concat v)"
  let ?result = "map (\<lambda>(k, v). (k, ?f v)) examples"
  from assms(2) obtain w where w: "map_of examples ''input_ids'' = Some w" by auto
  then have r: "map_of ?result ''input_ids'' = Some (?f w)"
    by (simp add: map_of_map)
  from assms(3) have nz: "block_size \<noteq> 0" by simp
  have g: "group_texts block_size examples = Inr (AList.update ''labels'' (?f w) ?result)"
    using group_texts_unfold [OF assms(1) nz assms(4)] r by (simp add: Let_def)
  have n0: "0 \<le> ?n" by (simp add: total_length_def)
  have "map_of (AList.update ''labels'' (?f w) ?result) k = Some (?f v)"
    using assms(5,6) by (simp add: update_conv' map_of_map)
  moreover have "concat (?f v) = take (nat ((?n div block_size) * block_size)) (concat v)"
    by (rule split_by_chunks_concat [OF assms(3) n0])
  moreover have "map_of (AList.update ''labels'' (?f w) ?result) ''labels'' =
                 map_of (AList.update ''labels'' (?f w) ?result) ''input_ids''"
    using r by (simp add: update_conv')
  ultimately show ?thesis using g by blast
qed

theorem group_texts_rechunks_witness:
  "group_texts 2 [(''input_ids'', [[1, 2, 3], [4, 5 :: int]])] =
     Inr [(''input_ids'', [[1, 2], [3, 4]]), (''labels'', [[1, 2], [3, 4]])] \<and>
   concat [[1, 2], [3, 4 :: int]] = take (nat ((5 div 2) * 2)) (concat [[1, 2, 3], [4, 5]])"
proof -
  let ?ex = "[(''input_ids'', [[1, 2, 3], [4, 5 :: int]])]"
  have n: "total_length ?ex = 5" by (simp add: total_length_def)
  have "\<exists>result chunks.
           group_texts 2 ?ex = Inr result \<and>
           map_of result ''input_ids'' = Some chunks \<and>
           concat chunks = take (nat ((total_length ?ex div 2) * 2)) (concat [[1, 2, 3], [4, 5]]) \<and>
           map_of result ''labels'' = map_of result ''input_ids''"
    by (rule group_texts_rechunks) (simp_all add: n)
  then show ?thesis
    unfolding group_texts_two_rows n by auto
qed

subsection \<open>Dictionaries\<close>

lemma in_set_dict_update:
  "p \<in> set (dict_update d other) \<Longrightarrow> p \<in> set d \<or> p \<in> set other"
  unfolding dict_update_def
proof (induction other arbitrary: d)
  case Nil
  then show ?case by simp
next
  case (Cons x other)
  obtain k v where x: "x = (k, v)" by (cases x)
  from Cons.prems have "p \<in> set (fold (\<lambda>(k, v). AList.update k v) other (AList.update k v d))"
    by (simp add: x)
  from Cons.IH [OF this] show ?case
    using in_set_update [of p k v d] by (auto simp: x)
qed

lemma map_of_dict_update_other:
  "k \<notin> fst ` set other \<Longrightarrow> map_of (dict_update d other) k = map_of d k"
  unfolding dict_update_def
  by (induction other arbitrary: d) (auto simp: update_conv')

lemma map_of_dict_update_in:
  "distinct (map fst other) \<Longrightarrow> (k, v) \<in> set other \<Longrightarrow>
     map_of (dict_update d other) k = Some v"
proof (induction other arbitrary: d)
  case Nil
  then show ?case by simp
next
  case (Cons x other)
  obtain k' v' where x: "x = (k', v')" by (cases x)
  have step: "dict_update d (x # other) = dict_update (AList.update k' v' d) other"
    by (simp add: dict_update_def x)
  show ?case
  proof (cases "(k, v) \<in> set other")
    case True
    with Cons show ?thesis unfolding step by simp
  next
    case False
    with Cons.prems have kv: "k' = k" "v' = v" and "k \<notin> fst ` set other"
      by (auto simp: x)
    then show ?thesis
      unfolding step by (simp add: map_of_dict_update_other update_conv')
  qed
qed

subsection \<open>The model configuration cell\<close>

lemma model_params_lookup_small:
  "model_params_lookup ''mixtral'' (PStr ''small'') =
     Some [(''hidden_width'', PInt 2048), (''max_context_width'', PInt 2048),
           (''num_heads'', PInt 16), (''num_layers'', PInt 8), (''num_local_experts'', PInt 4)]"
  by (simp add: model_params_lookup_def model_configs_def)

lemma model_params_lookup_large:
  "model_params_lookup ''mixtral'' (PStr ''large'') =
     Some [(''hidden_width'', PInt 4096), (''max_context_width'', PInt 2048),
           (''num_heads'', PInt 32), (''num_layers'', PInt 32), (''num_local_experts'', PInt 8)]"
  by (simp add: model_params_lookup_def model_configs_def)

lemma model_params_lookup_absent:
  "\<not> (mt = ''mixtral'' \<and> (ms = PStr ''small'' \<or> ms = PStr ''large'')) \<Longrightarrow>
     model_params_lookup mt ms = None"
  by (cases ms) (auto simp: model_params_lookup_def model_configs_def)

lemma model_params_lookup_cases:
  assumes "model_params_lookup mt ms = Some p"
  shows "mt = ''mixtral'' \<and>
         (ms = PStr ''small'' \<and> model_params_lookup ''mixtral'' (PStr ''small'') = Some p \<or>
          ms = PStr ''large'' \<and> model_params_lookup ''mixtral'' (PStr ''large'') = Some p)"
proof -
  have "mt = ''mixtral'' \<and> (ms = PStr ''small'' \<or> ms = PStr ''large'')"
    using assms model_params_lookup_absent [of mt ms] by fastforce
  then show ?thesis using assms by auto
qed

lemma format_02d_not_sdk:
  "format_02d ms = Inl e \<Longrightarrow> \<not> raised_by_sdk e"
  by (cases ms) (auto simp: format_02d_def raised_by_sdk_def)

text \<open>
  Claim C1, as stated: no notebook code raises an error of its own, every error comes from
  the SDK. The model-configuration cell refutes it: for the pair (mixtral, 7), which the
  table does not hold, the cell's own \<open>raise\<close> produces a \<open>RuntimeError\<close> whose message the
  notebook builds.
\<close>

theorem notebook_raises_RuntimeError:
  "model_config_cell ''mixtral'' (PInt 7) (hyperparameters ''mixtral'') =
     Inl (RuntimeError ''Unknown model config from (name, size) = (mixtral, 07B).'') \<and>
   \<not> raised_by_sdk (RuntimeError ''Unknown model config from (name, size) = (mixtral, 07B).'')"
  by (simp add: model_config_cell_def model_params_lookup_def format_02d_def format_02d_int_def
      decimal.simps digit_char_def raised_by_sdk_def)

text \<open>
  Claim C1, amended: the model-configuration lookup is an error path of the notebook's own.
  A pair \<open>(model_type, model_size)\<close> is absent from the table exactly when it is neither
  (mixtral, small) nor (mixtral, large); for every absent pair the cell fails with an error
  that does not come from the SDK, and for an integer size that error is the
  \<open>RuntimeError\<close> with the notebook's message; for a pair in the table the cell raises
  nothing and updates the hyperparameters with the selected parameters.
\<close>

theorem model_config_cell_guard:
  "(model_params_lookup mt ms = None \<longleftrightarrow>
      \<not> (mt = ''mixtral'' \<and> (ms = PStr ''small'' \<or> ms = PStr ''large''))) \<and>
   (model_params_lookup mt ms = None \<longrightarrow>
      (\<exists>e. model_config_cell mt ms hp = Inl e \<and> \<not> raised_by_sdk e)) \<and>
   (\<forall>p. model_params_lookup mt ms = Some p \<longrightarrow>
      model_config_cell mt ms hp = Inr (dict_update hp p)) \<and>
   model_config_cell mt (PInt n) hp =
     Inl (RuntimeError (''Unknown model config from (name, size) = ('' @ mt @ '', '' @
                        format_02d_int n @ ''B).''))"
proof (intro conjI allI impI)
  show "model_params_lookup mt ms = None \<longleftrightarrow>
      \<not> (mt = ''mixtral'' \<and> (ms = PStr ''small'' \<or> ms = PStr ''large''))"
    using model_params_lookup_absent [of mt ms] model_params_lookup_small model_params_lookup_large
    by auto
next
  assume none: "model_params_lookup mt ms = None"
  show "\<exists>e. model_config_cell mt ms hp = Inl e \<and> \<not> raised_by_sdk e"
  proof (cases "format_02d ms")
    case (Inl e)
    with none format_02d_not_sdk [OF Inl] show ?thesis
      by (simp add: model_config_cell_def)
  next
    case (Inr sz)
    with none show ?thesis
      by (simp add: model_config_cell_def raised_by_sdk_def)
  qed
next
  fix p
  assume "model_params_lookup mt ms = Some p"
  then show "model_config_cell mt ms hp = Inr (dict_update hp p)"
    by (simp add: model_config_cell_def)
next
  have "model_params_lookup mt (PInt n) = None"
    by (simp add: model_params_lookup_absent)
  then show "model_config_cell mt (PInt n) hp =
     Inl (RuntimeError (''Unknown model config from (name, size) = ('' @ mt @ '', '' @
                        format_02d_int n @ ''B).''))"
    by (simp add: model_config_cell_def format_02d_def)
qed

theorem model_config_cell_guard_witness:
  "model_params_lookup ''gpt'' (PInt 13) = None \<and>
   model_config_cell ''gpt'' (PInt 13) [] =
     Inl (RuntimeError ''Unknown model config from (name, size) = (gpt, 13B).'') \<and>
   model_config_cell ''mixtral'' (PStr ''large'') [(''moe'', PInt 1)] =
     Inr [(''moe'', PInt 1), (''hidden_width'', PInt 4096), (''max_context_width'', PInt 2048),
          (''num_heads'', PInt 32), (''num_layers'', PInt 32), (''num_local_experts'', PInt 8)]"
proof -
  have d: "format_02d_int 13 = ''13''"
    by code_simp
  have u: "dict_update [(''moe'', PInt 1)]
             [(''hidden_width'', PInt 4096), (''max_context_width'', PInt 2048),
              (''num_heads'', PInt 32), (''num_layers'', PInt 32), (''num_local_experts'', PInt 8)] =
           [(''moe'', PInt 1), (''hidden_width'', PInt 4096), (''max_context_width'', PInt 2048),
            (''num_heads'', PInt 32), (''num_layers'', PInt 32), (''num_local_experts'', PInt 8)]"
    by (simp add: dict_update_def)
  from model_config_cell_guard [of "''gpt''" "PInt 13" "[]" 13]
       model_config_cell_guard [of "''mixtral''" "PStr ''large''" "[(''moe'', PInt 1)]" 0]
  show ?thesis
    by (simp add: d u model_params_lookup_large)
qed

subsection \<open>Types of the configuration values\<close>

lemma hyperparameters_number_or_string:
  "(k, v) \<in> set (hyperparameters mt) \<Longrightarrow> number_or_string v"
  by (auto simp: hyperparameters_def number_or_string_def save_steps_def max_steps_def)

lemma model_params_number_or_string:
  assumes "model_params_lookup mt ms = Some p" "(k, v) \<in> set p"
  shows "number_or_string v"
proof -
  from model_params_lookup_cases [OF assms(1)]
  have "p = [(''hidden_width'', PInt 2048), (''max_context_width'', PInt 2048),
             (''num_heads'', PInt 16), (''num_layers'', PInt 8), (''num_local_experts'', PInt 4)] \<or>
        p = [(''hidden_width'', PInt 4096), (''max_context_width'', PInt 2048),
             (''num_heads'', PInt 32), (''num_layers'', PInt 32), (''num_local_experts'', PInt 8)]"
    unfolding model_params_lookup_small model_params_lookup_large by auto
  with assms(2) show ?thesis by (auto simp: number_or_string_def)
qed

lemma estimator_hyperparameters_returns:
  "estimator_hyperparameters =
     Inr (dict_update (hyperparameters ''mixtral'')
            [(''hidden_width'', PInt 2048), (''max_context_width'', PInt 2048),
             (''num_heads'', PInt 16), (''num_layers'', PInt 8), (''num_local_experts'', PInt 4)])"
  by (simp add: estimator_hyperparameters_def model_type_def model_size_def model_config_cell_def
      model_params_lookup_small)

text \<open>
  Claim C4, as stated: every value of every hyperparameter dictionary given to an estimator
  is a number or a string. The TinyLlama estimator's entry \<open>disable_tqdm\<close> is the boolean
  \<open>True\<close>.
\<close>

theorem TinyLlama_passes_boolean:
  "map_of pt_estimator_hyperparameters ''disable_tqdm'' = Some (PBool True) \<and>
   \<not> number_or_string (PBool True)"
  by (simp add: pt_estimator_hyperparameters_def number_or_string_def)

text \<open>
  Claim C4, amended: every value is a number, a string or a boolean. In the TinyLlama
  dictionary every value is a number or a string except \<open>disable_tqdm\<close>, which is \<open>True\<close>;
  in the dictionary the Mixtral estimator receives (the literal with the model parameters
  merged in, for whichever model type and size the lookup accepts) every value is a number
  or a string, and the notebook as written does reach the estimator with such a dictionary.
\<close>

theorem hyperparameter_value_types:
  "(\<forall>(k, v) \<in> set pt_estimator_hyperparameters.
      if k = ''disable_tqdm'' then v = PBool True else number_or_string v) \<and>
   (\<forall>hp. model_config_cell mt ms (hyperparameters mt) = Inr hp \<longrightarrow>
      (\<forall>(k, v) \<in> set hp. number_or_string v)) \<and>
   (\<exists>hp. estimator_hyperparameters = Inr hp)"
proof (intro conjI allI impI)
  show "\<forall>(k, v) \<in> set pt_estimator_hyperparameters.
      if k = ''disable_tqdm'' then v = PBool True else number_or_string v"
    by (simp add: pt_estimator_hyperparameters_def number_or_string_def)
next
  fix hp
  assume r: "model_config_cell mt ms (hyperparameters mt) = Inr hp"
  then obtain p where p: "model_params_lookup mt ms = Some p"
    and hp: "hp = dict_update (hyperparameters mt) p"
    by (auto simp: model_config_cell_def split: option.splits sum.splits)
  show "\<forall>(k, v) \<in> set hp. number_or_string v"
  proof clarify
    fix k v
    assume "(k, v) \<in> set hp"
    then have "(k, v) \<in> set (hyperparameters mt) \<or> (k, v) \<in> set p"
      unfolding hp by (rule in_set_dict_update)
    then show "number_or_string v"
      using hyperparameters_number_or_string model_params_number_or_string [OF p] by blast
  qed
next
  show "\<exists>hp. estimator_hyperparameters = Inr hp"
    by (simp add: estimator_hyperparameters_returns)
qed

theorem hyperparameter_value_types_witness:
  "(''tensor_parallel_size'', PInt 2) \<in> set pt_estimator_hyperparameters \<and>
   number_or_string (PInt 2) \<and>
   model_config_cell ''mixtral'' (PStr ''small'') (hyperparameters ''mixtral'') =
     Inr (dict_update (hyperparameters ''mixtral'')
            [(''hidden_width'', PInt 2048), (''max_context_width'', PInt 2048),
             (''num_heads'', PInt 16), (''num_layers'', PInt 8), (''num_local_experts'', PInt 4)]) \<and>
   list_all (\<lambda>(k, v). number_or_string v)
     (dict_update (hyperparameters ''mixtral'')
            [(''hidden_width'', PInt 2048), (''max_context_width'', PInt 2048),
             (''num_heads'', PInt 16), (''num_layers'', PInt 8), (''num_local_experts'', PInt 4)])"
proof -
  have m: "(''tensor_parallel_size'', PInt 2) \<in> set pt_estimator_hyperparameters"
    by (simp add: pt_estimator_hyperparameters_def)
  have r: "model_config_cell ''mixtral'' (PStr ''small'') (hyperparameters ''mixtral'') =
     Inr (dict_update (hyperparameters ''mixtral'')
            [(''hidden_width'', PInt 2048), (''max_context_width'', PInt 2048),
             (''num_heads'', PInt 16), (''num_layers'', PInt 8), (''num_local_experts'', PInt 4)])"
    by (simp add: model_config_cell_def model_params_lookup_small)
  note t = hyperparameter_value_types [of "''mixtral''" "PStr ''small''"]
  from t m have "number_or_string (PInt 2)" by fastforce
  moreover from t r have "list_all (\<lambda>(k, v). number_or_string v)
     (dict_update (hyperparameters ''mixtral'')
            [(''hidden_width'', PInt 2048), (''max_context_width'', PInt 2048),
             (''num_heads'', PInt 16), (''num_layers'', PInt 8), (''num_local_experts'', PInt 4)])"
    unfolding list_all_iff by blast
  ultimately show ?thesis using m r by simp
qed

subsection \<open>Degree parameters\<close>

text \<open>
  Claim C6, as stated: the degree parameters, and with them the parameters of the
  \<open>smdistributed\<close> \<open>modelparallel\<close> distribution, are all integers. One of those parameters,
  \<open>sm_activation_offloading\<close>, is the boolean \<open>False\<close>.
\<close>

theorem offloading_flag_is_boolean:
  "map_of smp_parameters ''sm_activation_offloading'' = Some (PBool False) \<and>
   \<not> is_integer (PBool False)"
  by (simp add: smp_parameters_def offload_activations_def is_integer_def)

text \<open>
  Claim C6, amended: every parallelism degree the notebooks set is an integer:
  \<open>tensor_parallel_size\<close> is 2 in the TinyLlama hyperparameters, \<open>expert_parallel_degree\<close> is
  2 and \<open>hybrid_shard_degree\<close> is 32 in the Mixtral notebook, and the \<open>parameters\<close>
  dictionary of the \<open>smdistributed\<close> \<open>modelparallel\<close> distribution holds these two degrees;
  every entry of that dictionary is an integer except \<open>sm_activation_offloading\<close>, a flag
  whose value is \<open>False\<close>.
\<close>

theorem degree_parameters_are_integers:
  "map_of pt_estimator_hyperparameters ''tensor_parallel_size'' = Some (PInt 2) \<and>
   expert_parallel_degree = PInt 2 \<and>
   hybrid_shard_degree = PInt 32 \<and>
   config_path [''smdistributed'', ''modelparallel'', ''parameters''] distribution =
     Some (Dict (map (\<lambda>(k, v). (k, Leaf v)) smp_parameters)) \<and>
   map_of smp_parameters ''hybrid_shard_degree'' = Some hybrid_shard_degree \<and>
   map_of smp_parameters ''expert_parallel_degree'' = Some expert_parallel_degree \<and>
   (\<forall>(k, v) \<in> set smp_parameters.
      if k = ''sm_activation_offloading'' then v = PBool False else is_integer v)"
  by (simp add: pt_estimator_hyperparameters_def expert_parallel_degree_def
      hybrid_shard_degree_def distribution_def smp_parameters_def is_integer_def
      activation_loading_horizon_def offload_activations_def)

theorem degree_parameters_are_integers_witness:
  "(''activation_loading_horizon'', PInt 2) \<in> set smp_parameters \<and> is_integer (PInt 2)"
proof -
  have m: "(''activation_loading_horizon'', PInt 2) \<in> set smp_parameters"
    by (simp add: smp_parameters_def activation_loading_horizon_def)
  with degree_parameters_are_integers have "is_integer (PInt 2)" by fastforce
  with m show ?thesis by simp
qed

subsection \<open>Configuration artifacts between construction and use\<close>

lemma hyperparameters_keys_fresh:
  "k \<in> {''hidden_width'', ''max_context_width'', ''num_heads'', ''num_layers'',
          ''num_local_experts''} \<Longrightarrow> map_of (hyperparameters mt) k = None"
  by (elim insertE emptyE; simp add: hyperparameters_def)

lemma model_params_keys:
  assumes "model_params_lookup mt ms = Some p"
  shows "fst ` set p = {''hidden_width'', ''max_context_width'', ''num_heads'', ''num_layers'',
          ''num_local_experts''}"
proof -
  from model_params_lookup_cases [OF assms]
  have "p = [(''hidden_width'', PInt 2048), (''max_context_width'', PInt 2048),
             (''num_heads'', PInt 16), (''num_layers'', PInt 8), (''num_local_experts'', PInt 4)] \<or>
        p = [(''hidden_width'', PInt 4096), (''max_context_width'', PInt 2048),
             (''num_heads'', PInt 32), (''num_layers'', PInt 32), (''num_local_experts'', PInt 8)]"
    unfolding model_params_lookup_small model_params_lookup_large by auto
  then show ?thesis by (elim disjE; simp)
qed

lemma dom_dict_update:
  "dom (map_of (dict_update d p)) = dom (map_of d) \<union> fst ` set p"
  unfolding dict_update_def
proof (induction p arbitrary: d)
  case Nil
  show ?case by simp
next
  case (Cons x p)
  obtain k v where x: "x = (k, v)" by (cases x)
  have "dom (map_of (AList.update k v d)) = insert k (dom (map_of d))"
    by (simp add: update_conv')
  then show ?case
    by (simp add: x Cons)
qed

lemma mixtral_deploy_uploads:
  "uploads (run mixtral_deploy_cells empty_directory) =
     [(''large-model-lmi-dist/code/mymodel.tar.gz'',
       Tar_gz [(''mymodel/serving.properties'', mixtral_serving_properties)])]"
  by (simp add: run_def mixtral_deploy_cells_def empty_directory_def members_def)

lemma tinyllama_deploy_uploads:
  "uploads (run (tinyllama_deploy_cells b) empty_directory) =
     [(''large-model-lmi/code/mycode.tar.gz'',
       Tar_gz [(''mycode/serving.properties'', file_content (s3_new_model_path b))]),
      (''tiny_llama/large-model-lmi/code/mycode.tar.gz'',
       Tar_gz [(''mycode/serving.properties'', tinyllama_serving_properties)])]"
  by (simp add: run_def tinyllama_deploy_cells_def empty_directory_def members_def)

text \<open>
  Claim C8, as stated: an artifact, once constructed, is not modified before it is
  consumed. The Mixtral hyperparameter dictionary is: the literal has no entry
  \<open>hidden_width\<close>, the dictionary the estimator receives has one, so the two differ.
\<close>

theorem hyperparameters_modified_after_construction:
  "map_of (hyperparameters model_type) ''hidden_width'' = None \<and>
   (case estimator_hyperparameters of
      Inl e \<Rightarrow> None
    | Inr hp \<Rightarrow> map_of hp ''hidden_width'') = Some (PInt 2048) \<and>
   estimator_hyperparameters \<noteq> Inr (hyperparameters model_type)"
proof -
  have a: "map_of (hyperparameters model_type) ''hidden_width'' = None"
    by (simp add: hyperparameters_keys_fresh)
  have b: "(case estimator_hyperparameters of
      Inl e \<Rightarrow> None
    | Inr hp \<Rightarrow> map_of hp ''hidden_width'') = Some (PInt 2048)"
    unfolding estimator_hyperparameters_returns
    by (simp add: map_of_dict_update_in)
  have "estimator_hyperparameters \<noteq> Inr (hyperparameters model_type)"
  proof
    assume eq: "estimator_hyperparameters = Inr (hyperparameters model_type)"
    from b have "map_of (hyperparameters model_type) ''hidden_width'' = Some (PInt 2048)"
      unfolding eq by simp
    with a show False by simp
  qed
  with a b show ?thesis by simp
qed

text \<open>
  Claim C8, amended: the serving configuration file and the archive around it reach the
  upload as constructed (each uploaded archive holds \<open>serving.properties\<close> with exactly the
  text written), while the Mixtral hyperparameter dictionary is modified once before the
  estimator receives it: \<open>hyperparameters.update(model_params)\<close> adds the five model
  parameters and leaves every entry of the literal as it was.
\<close>

theorem artifacts_between_construction_and_use:
  "(\<forall>hp. model_config_cell mt ms (hyperparameters mt) = Inr hp \<longrightarrow>
      (\<forall>k v. map_of (hyperparameters mt) k = Some v \<longrightarrow> map_of hp k = Some v) \<and>
      dom (map_of hp) = dom (map_of (hyperparameters mt)) \<union>
        {''hidden_width'', ''max_context_width'', ''num_heads'', ''num_layers'',
         ''num_local_experts''}) \<and>
   uploads (run mixtral_deploy_cells empty_directory) =
     [(''large-model-lmi-dist/code/mymodel.tar.gz'',
       Tar_gz [(''mymodel/serving.properties'', mixtral_serving_properties)])] \<and>
   uploads (run (tinyllama_deploy_cells default_bucket) empty_directory) =
     [(''large-model-lmi/code/mycode.tar.gz'',
       Tar_gz [(''mycode/serving.properties'', file_content (s3_new_model_path default_bucket))]),
      (''tiny_llama/large-model-lmi/code/mycode.tar.gz'',
       Tar_gz [(''mycode/serving.properties'', tinyllama_serving_properties)])]"
proof (intro conjI allI impI)
  fix hp
  assume r: "model_config_cell mt ms (hyperparameters mt) = Inr hp"
  then obtain p where p: "model_params_lookup mt ms = Some p"
    and hp: "hp = dict_update (hyperparameters mt) p"
    by (auto simp: model_config_cell_def split: option.splits sum.splits)
  note keys = model_params_keys [OF p]
  {
    fix k v
    assume kv: "map_of (hyperparameters mt) k = Some v"
    have "k \<notin> fst ` set p"
      unfolding keys
    proof
      assume "k \<in> {''hidden_width'', ''max_context_width'', ''num_heads'', ''num_layers'',
                    ''num_local_experts''}"
      from hyperparameters_keys_fresh [OF this, of mt] kv show False by simp
    qed
    then show "map_of hp k = Some v"
      unfolding hp using kv by (simp add: map_of_dict_update_other)
  }
  have "dom (map_of hp) = dom (map_of (hyperparameters mt)) \<union> fst ` set p"
    unfolding hp by (rule dom_dict_update)
  then show "dom (map_of hp) = dom (map_of (hyperparameters mt)) \<union>
        {''hidden_width'', ''max_context_width'', ''num_heads'', ''num_layers'',
         ''num_local_experts''}"
    unfolding keys .
qed (rule mixtral_deploy_uploads tinyllama_deploy_uploads)+

theorem artifacts_between_construction_and_use_witness:
  "model_config_cell ''mixtral'' (PStr ''small'') (hyperparameters ''mixtral'') =
     Inr (dict_update (hyperparameters ''mixtral'')
            [(''hidden_width'', PInt 2048), (''max_context_width'', PInt 2048),
             (''num_heads'', PInt 16), (''num_layers'', PInt 8), (''num_local_experts'', PInt 4)]) \<and>
   map_of (hyperparameters ''mixtral'') ''seed'' = Some (PInt 12345) \<and>
   map_of (dict_update (hyperparameters ''mixtral'')
            [(''hidden_width'', PInt 2048), (''max_context_width'', PInt 2048),
             (''num_heads'', PInt 16), (''num_layers'', PInt 8), (''num_local_experts'', PInt 4)])
     ''seed'' = Some (PInt 12345)"
proof -
  have r: "model_config_cell ''mixtral'' (PStr ''small'') (hyperparameters ''mixtral'') =
     Inr (dict_update (hyperparameters ''mixtral'')
            [(''hidden_width'', PInt 2048), (''max_context_width'', PInt 2048),
             (''num_heads'', PInt 16), (''num_layers'', PInt 8), (''num_local_experts'', PInt 4)])"
    by (simp add: model_config_cell_def model_params_lookup_small)
  have s: "map_of (hyperparameters ''mixtral'') ''seed'' = Some (PInt 12345)"
    by (simp add: hyperparameters_def)
  from artifacts_between_construction_and_use [of "''mixtral''" "PStr ''small''" "''b''"] r s
  have "map_of (dict_update (hyperparameters ''mixtral'')
            [(''hidden_width'', PInt 2048), (''max_context_width'', PInt 2048),
             (''num_heads'', PInt 16), (''num_layers'', PInt 8), (''num_local_experts'', PInt 4)])
     ''seed'' = Some (PInt 12345)"
    by blast
  with r s show ?thesis by simp
qed

subsection \<open>The serving configuration files\<close>

lemma file_lines_line:
  "newline \<notin> set l \<Longrightarrow> file_lines (l @ newline # rest) = l # file_lines rest"
  by (induction l) auto

lemma file_lines_writefile:
  "\<forall>l \<in> set ls. newline \<notin> set l \<Longrightarrow> ls \<noteq> [] \<Longrightarrow>
     file_lines (writefile_magic (join_lines ls)) = ls"
  unfolding writefile_magic_def
proof (induction ls rule: join_lines.induct)
  case 1
  then show ?case by simp
next
  case (2 l)
  then show ?case using file_lines_line [of l "[]"] by simp
next
  case (3 l m ls)
  then show ?case using file_lines_line [of l "join_lines (m # ls) @ [newline]"] by simp
qed

lemma file_lines_single:
  "newline \<notin> set l \<Longrightarrow> l \<noteq> [] \<Longrightarrow> file_lines l = [l]"
proof (induction l)
  case Nil
  then show ?case by simp
next
  case (Cons a l)
  then show ?case by (cases "l = []") auto
qed

lemma file_lines_join:
  "\<forall>l \<in> set ls. newline \<notin> set l \<and> l \<noteq> [] \<Longrightarrow> file_lines (join_lines ls) = ls"
proof (induction ls rule: join_lines.induct)
  case 1
  then show ?case by simp
next
  case (2 l)
  then show ?case by (simp add: file_lines_single)
next
  case (3 l m ls)
  then show ?case using file_lines_line [of l "join_lines (m # ls)"] by simp
qed

lemma parse_mixtral_serving_properties:
  "parse_properties mixtral_serving_properties =
     Some [(''engine'', ''MPI''),
           (''option.model_id'', ''mistralai/Mixtral-8x7B-v0.1''),
           (''option.tensor_parallel_degree'', ''8''),
           (''option.max_rolling_batch_size'', ''32''),
           (''option.rolling_batch'', ''lmi-dist'')]"
  unfolding parse_properties_def mixtral_serving_properties_def
  by (subst file_lines_writefile) (simp_all add: newline_def split_key_value_def)

lemma parse_tinyllama_serving_properties:
  "parse_properties tinyllama_serving_properties =
     Some [(''engine'', ''Python''),
           (''option.entryPoint'', ''djl_python.transformers_neuronx''),
           (''option.model_id'', ''TinyLlama/TinyLlama-1.1B-Chat-v0.4''),
           (''option.batch_size'', ''1''),
           (''option.neuron_optimize_level'', ''1''),
           (''option.tensor_parallel_degree'', ''2''),
           (''option.load_in_8bit'', ''false''),
           (''option.n_positions'', ''512''),
           (''option.rolling_batch'', ''auto''),
           (''option.dtype'', ''fp16'')]"
  unfolding parse_properties_def tinyllama_serving_properties_def
  by (subst file_lines_writefile) (simp_all add: newline_def split_key_value_def)

lemma parse_file_content:
  assumes "newline \<notin> set default_bucket"
  shows "parse_properties (file_content (s3_new_model_path default_bucket)) =
     Some [(''engine'', ''Python''),
           (''option.entryPoint'', ''djl_python.transformers_neuronx''),
           (''option.model_id'', ''s3://'' @ default_bucket @ ''/neuron_events2024/trained_model''),
           (''option.batch_size'', ''1''),
           (''option.neuron_optimize_level'', ''1''),
           (''option.tensor_parallel_degree'', ''2''),
           (''option.load_in_8bit'', ''false''),
           (''option.n_positions'', ''512''),
           (''option.rolling_batch'', ''auto''),
           (''option.dtype'', ''fp16'')]"
proof -
  have nl: "newline \<notin> set (''option.model_id='' @ s3_new_model_path default_bucket)"
    using assms by (simp add: s3_new_model_path_def newline_def)
  show ?thesis
    unfolding parse_properties_def file_content_def
    apply (subst file_lines_join)
    using nl apply (simp add: newline_def)
    apply (simp add: split_key_value_def s3_new_model_path_def)
    done
qed

text \<open>
  Claim C3. Every serving configuration file the deployment notebooks write is a flat
  key-value text: each of its lines is \<open>key=value\<close>, and among the keys are \<open>engine\<close>,
  \<open>option.model_id\<close>, \<open>option.tensor_parallel_degree\<close> and a batch size
  (\<open>option.max_rolling_batch_size\<close> or \<open>option.batch_size\<close>). One of the three files
  embeds the session's default bucket in the model path; a bucket name holds no line break.
\<close>

theorem serving_files_flat_key_value:
  assumes "newline \<notin> set default_bucket"
  shows "\<forall>f \<in> set (serving_files default_bucket).
           \<exists>kvs. parse_properties f = Some kvs \<and>
             map_of kvs ''engine'' \<noteq> None \<and>
             map_of kvs ''option.model_id'' \<noteq> None \<and>
             map_of kvs ''option.tensor_parallel_degree'' \<noteq> None \<and>
             (map_of kvs ''option.max_rolling_batch_size'' \<noteq> None \<or>
              map_of kvs ''option.batch_size'' \<noteq> None)"
  unfolding serving_files_def
  by (simp add: parse_mixtral_serving_properties parse_tinyllama_serving_properties
      parse_file_content [OF assms])

theorem serving_files_flat_key_value_witness:
  "newline \<notin> set ''sagemaker-us-east-2-123456789012'' \<and>
   (\<exists>kvs. parse_properties
            (file_content (s3_new_model_path ''sagemaker-us-east-2-123456789012'')) = Some kvs \<and>
          map_of kvs ''engine'' \<noteq> None \<and>
          map_of kvs ''option.model_id'' \<noteq> None \<and>
          map_of kvs ''option.tensor_parallel_degree'' \<noteq> None \<and>
          map_of kvs ''option.batch_size'' \<noteq> None) \<and>
   map_of [(''engine'', ''MPI''),
           (''option.model_id'', ''mistralai/Mixtral-8x7B-v0.1''),
           (''option.tensor_parallel_degree'', ''8''),
           (''option.max_rolling_batch_size'', ''32''),
           (''option.rolling_batch'', ''lmi-dist'')] ''option.batch_size'' = None"
proof -
  have b: "newline \<notin> set ''sagemaker-us-east-2-123456789012''"
    by (simp add: newline_def)
  have m: "file_content (s3_new_model_path ''sagemaker-us-east-2-123456789012'')
             \<in> set (serving_files ''sagemaker-us-east-2-123456789012'')"
    by (simp add: serving_files_def)
  from serving_files_flat_key_value [OF b] m
  obtain kvs where k: "parse_properties
            (file_content (s3_new_model_path ''sagemaker-us-east-2-123456789012'')) = Some kvs"
          "map_of kvs ''engine'' \<noteq> None"
          "map_of kvs ''option.model_id'' \<noteq> None"
          "map_of kvs ''option.tensor_parallel_degree'' \<noteq> None"
    by blast
  have "map_of kvs ''option.batch_size'' \<noteq> None"
    using k(1) unfolding parse_file_content [OF b] by auto
  with k b show ?thesis by auto
qed

subsection \<open>\<open>template_dataset\<close>\<close>

lemma py_format_prompt_template:
  "py_format prompt_template [''question'' \<mapsto> q, ''answer'' \<mapsto> a] = Inr (prompt_text q a)"
  by (simp add: py_format_def prompt_template_def prompt_text_def newline_def)

text \<open>
  Claim C9. For every sample with a \<open>question\<close> and an \<open>answer\<close> column,
  \<open>template_dataset\<close> returns the same sample with the one column \<open>text\<close> added or
  overwritten; its new content is the fixed prompt with the sample's question and answer
  in place of the two fields, and every other column is unchanged.
\<close>

theorem template_dataset_adds_text:
  assumes "sample ''question'' = Some q" and "sample ''answer'' = Some a"
  shows "template_dataset sample = Inr (sample(''text'' \<mapsto> prompt_text q a)) \<and>
         (\<exists>sample'. template_dataset sample = Inr sample' \<and>
            sample' ''text'' = Some (prompt_text q a) \<and>
            (\<forall>k. k \<noteq> ''text'' \<longrightarrow> sample' k = sample k))"
  using assms by (simp add: template_dataset_def py_format_prompt_template)

theorem template_dataset_adds_text_witness:
  "template_dataset [''question'' \<mapsto> ''What is S3?'', ''answer'' \<mapsto> ''Object storage.'',
                     ''id'' \<mapsto> ''17''] =
     Inr [''question'' \<mapsto> ''What is S3?'', ''answer'' \<mapsto> ''Object storage.'',
          ''id'' \<mapsto> ''17'', ''text'' \<mapsto> prompt_text ''What is S3?'' ''Object storage.'']"
  using template_dataset_adds_text
    [of "[''question'' \<mapsto> ''What is S3?'', ''answer'' \<mapsto> ''Object storage.'', ''id'' \<mapsto> ''17'']"
        "''What is S3?''" "''Object storage.''"]
  by simp

subsection \<open>\<open>find_all_linear_names\<close>\<close>

lemma py_split_not_Nil: "py_split c s \<noteq> []"
  by (induction s) (auto split: list.splits)

lemma py_split_no_separator: "c \<notin> set s \<Longrightarrow> py_split c s = [s]"
  by (induction s) auto

lemma py_split_separator: "c \<in> set s \<Longrightarrow> \<exists>l m ls. py_split c s = l # m # ls"
proof (induction s)
  case Nil
  then show ?case by simp
next
  case (Cons x xs)
  show ?case
  proof (cases "x = c")
    case True
    then show ?thesis
      using py_split_not_Nil [of c xs] by (cases "py_split c xs") auto
  next
    case False
    with Cons.prems have "c \<in> set xs" by simp
    from Cons.IH [OF this] False show ?thesis by auto
  qed
qed

lemma takeWhile_snoc_stop: "\<not> P y \<Longrightarrow> takeWhile P (ys @ [y]) = takeWhile P ys"
  by (induction ys) auto

lemma last_py_split:
  "last (py_split c s) = rev (takeWhile (\<lambda>x. x \<noteq> c) (rev s))"
proof (induction s)
  case Nil
  show ?case by simp
next
  case (Cons x xs)
  show ?case
  proof (cases "x = c")
    case True
    have "takeWhile (\<lambda>x. x \<noteq> c) (rev xs @ [c]) = takeWhile (\<lambda>x. x \<noteq> c) (rev xs)"
      by (simp add: takeWhile_snoc_stop)
    with True Cons.IH show ?thesis
      by (simp add: py_split_not_Nil)
  next
    case False
    show ?thesis
    proof (cases "c \<in> set xs")
      case True
      from py_split_separator [OF True] obtain l m ls where s: "py_split c xs = l # m # ls"
        by blast
      have "takeWhile (\<lambda>x. x \<noteq> c) (rev xs @ [x]) = takeWhile (\<lambda>x. x \<noteq> c) (rev xs)"
        using True by (intro takeWhile_append1 [of c]) auto
      with False Cons.IH s show ?thesis by simp
    next
      case no: False
      have "takeWhile (\<lambda>x. x \<noteq> c) (rev xs @ [x]) = rev xs @ [x]"
        using no False by (auto simp: takeWhile_eq_all_conv)
      then have r: "rev (takeWhile (\<lambda>x. x \<noteq> c) (rev (x # xs))) = rev (rev xs @ [x])"
        by (simp only: rev.simps)
      have l: "last (py_split c (x # xs)) = x # xs"
        using False no by (simp add: py_split_no_separator)
      show ?thesis unfolding l r by simp
    qed
  qed
qed

lemma picked_component:
  "(let names = py_split (CHR ''.'') name
    in if length names = 1 then names ! 0 else last names) = final_component name"
proof -
  have "(if length ns = 1 then ns ! 0 else last ns) = last ns" if "ns \<noteq> []" for ns :: "string list"
    using that by (cases ns) auto
  then show ?thesis
    by (simp add: Let_def py_split_not_Nil final_component_def last_py_split)
qed

lemma set_add_set: "set (set_add x s) = insert x (set s)"
  by (auto simp: set_add_def)

lemma set_add_distinct: "distinct s \<Longrightarrow> distinct (set_add x s)"
  by (simp add: set_add_def)

lemma collect_names:
  fixes ms :: "(string \<times> module_kind) list"
  defines "step \<equiv> (\<lambda>(name, module) acc.
                    if module = Linear4bit then
                      set_add (if length (py_split (CHR ''.'') name) = 1
                               then py_split (CHR ''.'') name ! 0
                               else last (py_split (CHR ''.'') name)) acc
                    else acc)"
  shows "set (fold step ms acc) = set acc \<union> {final_component name | name. (name, Linear4bit) \<in> set ms}"
    and "distinct acc \<Longrightarrow> distinct (fold step ms acc)"
proof -
  have step: "step (name, m) acc = (if m = Linear4bit then set_add (final_component name) acc else acc)"
    for name m acc
    unfolding step_def using picked_component [of name] by (simp add: Let_def)
  show "set (fold step ms acc) = set acc \<union> {final_component name | name. (name, Linear4bit) \<in> set ms}"
  proof (induction ms arbitrary: acc)
    case Nil
    show ?case by simp
  next
    case (Cons p ms)
    obtain name m where p: "p = (name, m)" by (cases p)
    show ?case
      unfolding p by (cases m) (auto simp: Cons step set_add_set)
  qed
  show "distinct acc \<Longrightarrow> distinct (fold step ms acc)"
  proof (induction ms arbitrary: acc)
    case Nil
    then show ?case by simp
  next
    case (Cons p ms)
    obtain name m where p: "p = (name, m)" by (cases p)
    from Cons.prems show ?case
      unfolding p by (cases m) (auto simp: step set_add_distinct intro!: Cons.IH)
  qed
qed

text \<open>
  Claim C7. For every model, the list \<open>find_all_linear_names\<close> returns never contains
  \<open>lm_head\<close>, has no duplicates, and each of its elements is the final dot-separated
  component of the name of a module that is an instance of \<open>Linear4bit\<close> (the whole name
  when it has no dot). The list holds every such component but \<open>lm_head\<close>.
\<close>

theorem find_all_linear_names_components:
  "''lm_head'' \<notin> set (find_all_linear_names named_modules) \<and>
   distinct (find_all_linear_names named_modules) \<and>
   (\<forall>x \<in> set (find_all_linear_names named_modules).
      \<exists>name. (name, Linear4bit) \<in> set named_modules \<and> x = final_component name) \<and>
   set (find_all_linear_names named_modules) =
     {final_component name | name. (name, Linear4bit) \<in> set named_modules} - {''lm_head''}"
proof -
  have s: "set (find_all_linear_names named_modules) =
     {final_component name | name. (name, Linear4bit) \<in> set named_modules} - {''lm_head''}"
    unfolding find_all_linear_names_def Let_def set_remove_def
    by (auto simp: collect_names(1))
  have d: "distinct (find_all_linear_names named_modules)"
    unfolding find_all_linear_names_def Let_def set_remove_def
    by (simp add: collect_names(2) distinct_removeAll)
  from s d show ?thesis by auto
qed

theorem find_all_linear_names_components_witness:
  "find_all_linear_names
     [('''', Other_module),
      (''model.layers.0.self_attn'', Other_module),
      (''model.layers.0.self_attn.q_proj'', Linear4bit),
      (''model.layers.0.mlp.up_proj'', Linear4bit),
      (''model.layers.1.self_attn.q_proj'', Linear4bit),
      (''lm_head'', Linear4bit)] = [''q_proj'', ''up_proj''] \<and>
   ''q_proj'' = final_component ''model.layers.0.self_attn.q_proj'' \<and>
   ''lm_head'' \<notin> set [''q_proj'', ''up_proj'']"
proof -
  let ?ms = "[('''', Other_module),
      (''model.layers.0.self_attn'', Other_module),
      (''model.layers.0.self_attn.q_proj'', Linear4bit),
      (''model.layers.0.mlp.up_proj'', Linear4bit),
      (''model.layers.1.self_attn.q_proj'', Linear4bit),
      (''lm_head'', Linear4bit)]"
  have r: "find_all_linear_names ?ms = [''q_proj'', ''up_proj'']"
    by code_simp
  have c: "''q_proj'' = final_component ''model.layers.0.self_attn.q_proj''"
    by (simp add: final_component_def)
  from find_all_linear_names_components [of ?ms]
  have "''lm_head'' \<notin> set (find_all_linear_names ?ms)" by blast
  then show ?thesis using r c by simp
qed


end
